theory Spec2Isabelle
  imports Complex_Main
begin

section \<open>Position stabilisation (uiComponents.ts, positionHighlightOnElement)\<close>

text \<open>
  Coordinates are the numbers of a DOMRect. They are modelled as real numbers: the
  comparisons of the source are kept as written, the rounding of a double subtraction
  is not part of the model.
\<close>

record rect =
  rect_top :: real
  rect_left :: real
  rect_width :: real
  rect_height :: real

text \<open>
  The overlay wrapper node, as far as positionHighlightOnElement writes it: the three
  geometry styles (unset until the first write), the opacity string and the property
  \<^verbatim>\<open>wrapper['positionInterval']\<close> holding the id of the repeating timer, or null.
  The ids that setInterval returns are positive, so a stored id always passes the
  truth test of the source.
\<close>

record wrapper =
  style_transform :: "(real \<times> real) option"
  style_width :: "real option"
  style_height :: "real option"
  style_opacity :: string
  positionInterval :: "nat option"

text \<open>The closure variables of one stabilisation run, with the wrapper it owns.\<close>

record stabilization =
  lastRect :: rect
  stabilityCounter :: nat
  attemptCounter :: nat
  wrapper :: wrapper

text \<open>
  One ancestor of the target as the parent walk reads it: whether it is
  \<^verbatim>\<open>document.body\<close>, and its bounding rectangle.
\<close>

record ancestor =
  isBody :: bool
  parentRect :: rect

text \<open>
  What one call of updatePosition reads from the page: the target's bounding rectangle,
  \<^verbatim>\<open>document.body.contains(element)\<close>, the chain of \<^verbatim>\<open>parentElement\<close> links
  starting at the target's parent, and the scroll offsets
  (\<^verbatim>\<open>window.scrollX || window.pageXOffset\<close>: the two properties are the same number).
\<close>

record sample =
  boundingRect :: rect
  bodyContains :: bool
  parentChain :: "ancestor list"
  scrollX :: real
  scrollY :: real

definition MAX_ATTEMPTS :: "bool \<Rightarrow> bool \<Rightarrow> nat" where
  "MAX_ATTEMPTS isInModal isInExpandedNav =
     (if isInExpandedNav then 60 else (if isInModal then 50 else 30))"

definition CHECK_INTERVAL :: "bool \<Rightarrow> bool \<Rightarrow> nat" where
  "CHECK_INTERVAL isInModal isInExpandedNav =
     (if isInExpandedNav then 80 else (if isInModal then 100 else 50))"

definition INITIAL_DELAY :: "bool \<Rightarrow> bool \<Rightarrow> nat" where
  "INITIAL_DELAY isInModal isInExpandedNav =
     (if isInExpandedNav then 400 else (if isInModal then 300 else 0))"

text \<open>
  The three contexts of the specification and its table of timing parameters
  (maxAttempts, checkIntervalMs, initialDelayMs). The source has no such type: it
  carries the two flags isInModal and isInExpandedNav.
\<close>

datatype stabilizationContext = Standard | InModal | InExpandingNav

definition classify :: "bool \<Rightarrow> bool \<Rightarrow> stabilizationContext" where
  "classify isInModal isInExpandedNav =
     (if isInExpandedNav then InExpandingNav else if isInModal then InModal else Standard)"

fun timing_table :: "stabilizationContext \<Rightarrow> nat \<times> nat \<times> nat" where
  "timing_table Standard = (30, 50, 0)"
| "timing_table InModal = (50, 100, 300)"
| "timing_table InExpandingNav = (60, 80, 400)"

definition hasValidSize :: "rect \<Rightarrow> bool" where
  "hasValidSize r \<longleftrightarrow> rect_width r > 0 \<and> rect_height r > 0"

definition positionChanged :: "rect \<Rightarrow> rect \<Rightarrow> bool" where
  "positionChanged r prev \<longleftrightarrow>
     \<bar>rect_top r - rect_top prev\<bar> > 1 \<or>
     \<bar>rect_left r - rect_left prev\<bar> > 1 \<or>
     \<bar>rect_width r - rect_width prev\<bar> > 1 \<or>
     \<bar>rect_height r - rect_height prev\<bar> > 1"

text \<open>The three style writes that put the wrapper on a rectangle.\<close>

definition placeWrapper :: "rect \<Rightarrow> sample \<Rightarrow> wrapper \<Rightarrow> wrapper" where
  "placeWrapper r smp w =
     w\<lparr>style_transform := Some (rect_left r + scrollX smp, rect_top r + scrollY smp),
       style_width := Some (rect_width r),
       style_height := Some (rect_height r)\<rparr>"

text \<open>The branch for a target with a valid size inside the document body.\<close>

definition validBranch :: "sample \<Rightarrow> stabilization \<Rightarrow> stabilization" where
  "validBranch smp st =
     (let r = boundingRect smp;
          w1 = placeWrapper r smp (wrapper st)
      in if positionChanged r (lastRect st)
         then st\<lparr>stabilityCounter := 0,
                 lastRect := \<lparr>rect_top = rect_top r, rect_left = rect_left r,
                              rect_width = rect_width r, rect_height = rect_height r\<rparr>,
                 wrapper := w1\<rparr>
         else
           (let c = stabilityCounter st + 1;
                w2 = (if c \<ge> 3 then w1\<lparr>style_opacity := ''1''\<rparr> else w1);
                w3 = (if c \<ge> 3 \<and> c \<ge> 5 \<and> positionInterval w2 \<noteq> None
                      then w2\<lparr>positionInterval := None\<rparr> else w2)
            in st\<lparr>stabilityCounter := c, wrapper := w3\<rparr>))"

text \<open>
  The walk up the tree: the loop runs while there is a parent, it is not the body, and
  fewer than 10 ancestors have been looked at; it stops at the first ancestor whose
  rectangle has a positive width and height.
\<close>

fun findVisibleParent :: "ancestor list \<Rightarrow> nat \<Rightarrow> rect option" where
  "findVisibleParent [] parentSearchDepth = None"
| "findVisibleParent (parent # ancestors) parentSearchDepth =
     (if isBody parent \<or> \<not> parentSearchDepth < 10 then None
      else if rect_width (parentRect parent) > 0 \<and> rect_height (parentRect parent) > 0
      then Some (parentRect parent)
      else findVisibleParent ancestors (parentSearchDepth + 1))"

text \<open>The last branch: the target is invalid and the navigation grace period is over.\<close>

definition invalidBranch :: "sample \<Rightarrow> stabilization \<Rightarrow> stabilization" where
  "invalidBranch smp st =
     (if bodyContains smp \<and> \<not> hasValidSize (boundingRect smp) \<and> parentChain smp \<noteq> []
      then (case findVisibleParent (parentChain smp) 0 of
              Some pr \<Rightarrow> st\<lparr>wrapper := (placeWrapper pr smp (wrapper st))\<lparr>style_opacity := ''1''\<rparr>\<rparr>
            | None \<Rightarrow> st)
      else st)"

text \<open>The three-way branch on the sample, after attemptCounter has been incremented.\<close>

definition sampleBranch :: "bool \<Rightarrow> bool \<Rightarrow> sample \<Rightarrow> stabilization \<Rightarrow> stabilization" where
  "sampleBranch isInModal isInExpandedNav smp st =
     (if hasValidSize (boundingRect smp) \<and> bodyContains smp then validBranch smp st
      else if isInExpandedNav \<and>
              real (attemptCounter st) < real (MAX_ATTEMPTS isInModal isInExpandedNav) / 2
      then st
      else invalidBranch smp st)"

text \<open>The stop after max attempts, at the end of updatePosition.\<close>

definition maxAttemptsCheck :: "bool \<Rightarrow> bool \<Rightarrow> stabilization \<Rightarrow> stabilization" where
  "maxAttemptsCheck isInModal isInExpandedNav st =
     (if attemptCounter st \<ge> MAX_ATTEMPTS isInModal isInExpandedNav
      then (if positionInterval (wrapper st) \<noteq> None
            then st\<lparr>wrapper := (wrapper st)\<lparr>positionInterval := None, style_opacity := ''1''\<rparr>\<rparr>
            else st)
      else st)"

definition updatePosition :: "bool \<Rightarrow> bool \<Rightarrow> sample \<Rightarrow> stabilization \<Rightarrow> stabilization" where
  "updatePosition isInModal isInExpandedNav smp st =
     maxAttemptsCheck isInModal isInExpandedNav
       (sampleBranch isInModal isInExpandedNav smp
          (st\<lparr>attemptCounter := attemptCounter st + 1\<rparr>))"

text \<open>
  The state of a run when the delayed callback has created the repeating timer and
  stored its id on the wrapper, just before the first call of updatePosition: the
  closure variables as initialised, the wrapper hidden and not yet positioned.
\<close>

definition monitoringStarted :: "nat \<Rightarrow> stabilization" where
  "monitoringStarted timerId =
     \<lparr>lastRect = \<lparr>rect_top = 0, rect_left = 0, rect_width = 0, rect_height = 0\<rparr>,
      stabilityCounter = 0,
      attemptCounter = 0,
      wrapper = \<lparr>style_transform = None, style_width = None, style_height = None,
                 style_opacity = ''0'', positionInterval = Some timerId\<rparr>\<rparr>"

text \<open>
  The repeating timer: updatePosition runs at a firing time only while the timer has
  not been cleared. Both places that call clearInterval also set
  \<^verbatim>\<open>wrapper['positionInterval']\<close> to null, and nothing else clears or sets it after the
  start, so the timer is live exactly while that property is not null. The first call,
  made directly by the delayed callback, happens with the timer live.
\<close>

definition timerFires :: "bool \<Rightarrow> bool \<Rightarrow> sample \<Rightarrow> stabilization \<Rightarrow> stabilization" where
  "timerFires isInModal isInExpandedNav smp st =
     (if positionInterval (wrapper st) = None then st
      else updatePosition isInModal isInExpandedNav smp st)"

text \<open>
  A run over the samples the page offers at the successive firing times, the first
  one being the direct call.
\<close>

fun polling :: "bool \<Rightarrow> bool \<Rightarrow> sample list \<Rightarrow> stabilization \<Rightarrow> stabilization" where
  "polling isInModal isInExpandedNav [] st = st"
| "polling isInModal isInExpandedNav (smp # later) st =
     polling isInModal isInExpandedNav later (timerFires isInModal isInExpandedNav smp st)"

definition stabilize :: "bool \<Rightarrow> bool \<Rightarrow> nat \<Rightarrow> sample list \<Rightarrow> stabilization" where
  "stabilize isInModal isInExpandedNav timerId samples =
     polling isInModal isInExpandedNav samples (monitoringStarted timerId)"


text \<open>The all-zero rectangle \<^verbatim>\<open>lastRect\<close> starts from.\<close>

definition zeroRect :: rect where
  "zeroRect = \<lparr>rect_top = 0, rect_left = 0, rect_width = 0, rect_height = 0\<rparr>"

text \<open>
  The ancestor search in the words of the specification: among the first 10 parent
  links, the first ancestor with a non-zero area. It is compared with
  \<^const>\<open>findVisibleParent\<close> below.
\<close>

definition visibleAncestor :: "ancestor \<Rightarrow> bool" where
  "visibleAncestor a \<longleftrightarrow> rect_width (parentRect a) > 0 \<and> rect_height (parentRect a) > 0"

definition ancestorFallback_spec :: "ancestor list \<Rightarrow> rect option" where
  "ancestorFallback_spec chain = map_option parentRect (find visibleAncestor (take 10 chain))"

text \<open>The part of the chain the loop of the source can reach: it stops at the body.\<close>

definition belowBody :: "ancestor list \<Rightarrow> ancestor list" where
  "belowBody chain = takeWhile (\<lambda>a. \<not> isBody a) chain"

subsection \<open>The wrapper nodes of a page and their timers\<close>

text \<open>
  The page as positionHighlightOnElement sees it across calls: the nodes of class
  \<^verbatim>\<open>hyphen-highlight-wrapper\<close> attached to the document, in document order, and the
  store of the runs started so far, each with its closure variables and its wrapper
  object, addressed by the wrapper's identity. A wrapper that has been removed from the
  document stays in the store: the closure of its run still holds it.
\<close>

record page =
  attachedWrappers :: "nat list"
  runs :: "nat \<Rightarrow> stabilization option"
  nextNode :: nat

definition emptyPage :: page where
  "emptyPage = \<lparr>attachedWrappers = [], runs = (\<lambda>_. None), nextNode = 0\<rparr>"

text \<open>
  The synchronous part of positionHighlightOnElement, called with an element and a
  highlight that are not null: the first attached wrapper, if any, is removed from its
  parent; a new hidden wrapper is created and appended to the body; the closure
  variables are initialised. The delayed callback is still to come, so the new wrapper
  has no timer yet.
\<close>

definition positionHighlightOnElement :: "page \<Rightarrow> page" where
  "positionHighlightOnElement pg =
     (let remaining = (case attachedWrappers pg of [] \<Rightarrow> [] | existingWrapper # others \<Rightarrow> others);
          w = nextNode pg;
          fresh = \<lparr>lastRect = \<lparr>rect_top = 0, rect_left = 0, rect_width = 0, rect_height = 0\<rparr>,
                   stabilityCounter = 0,
                   attemptCounter = 0,
                   wrapper = \<lparr>style_transform = None, style_width = None, style_height = None,
                              style_opacity = ''0'', positionInterval = None\<rparr>\<rparr>
      in \<lparr>attachedWrappers = remaining @ [w],
          runs = (runs pg)(w \<mapsto> fresh),
          nextNode = w + 1\<rparr>)"

text \<open>
  The delayed callback of the run that owns wrapper \<open>w\<close>: it creates the repeating
  timer, stores its id on the wrapper and calls updatePosition once.
\<close>

definition delayElapsed ::
  "bool \<Rightarrow> bool \<Rightarrow> nat \<Rightarrow> nat \<Rightarrow> sample \<Rightarrow> page \<Rightarrow> page" where
  "delayElapsed isInModal isInExpandedNav w timerId smp pg =
     (case runs pg w of
        None \<Rightarrow> pg
      | Some st \<Rightarrow>
          pg\<lparr>runs := (runs pg)(w \<mapsto>
                 updatePosition isInModal isInExpandedNav smp
                   (st\<lparr>wrapper := (wrapper st)\<lparr>positionInterval := Some timerId\<rparr>\<rparr>))\<rparr>)"

text \<open>A firing time of the repeating timer of the run that owns wrapper \<open>w\<close>.\<close>

definition intervalElapsed :: "bool \<Rightarrow> bool \<Rightarrow> nat \<Rightarrow> sample \<Rightarrow> page \<Rightarrow> page" where
  "intervalElapsed isInModal isInExpandedNav w smp pg =
     (case runs pg w of
        None \<Rightarrow> pg
      | Some st \<Rightarrow> pg\<lparr>runs := (runs pg)(w \<mapsto> timerFires isInModal isInExpandedNav smp st)\<rparr>)"

text \<open>The repeating timers that are live on a page, by the wrapper that holds their id.\<close>

definition liveTimer :: "page \<Rightarrow> nat \<Rightarrow> bool" where
  "liveTimer pg w = (case runs pg w of None \<Rightarrow> False
                     | Some st \<Rightarrow> positionInterval (wrapper st) \<noteq> None)"

section \<open>Element resolution (elementUtils.ts)\<close>

subsection \<open>Strings\<close>

text \<open>
  Strings are lists of 8-bit characters. \<^verbatim>\<open>trim\<close> removes the white space and line
  terminators of ECMAScript that exist in this range; \<^verbatim>\<open>toLowerCase\<close> is modelled on
  the letters A to Z.
\<close>

definition isWhiteSpace :: "char \<Rightarrow> bool" where
  "isWhiteSpace c \<longleftrightarrow>
     (let k = (of_char c :: nat) in k = 9 \<or> k = 10 \<or> k = 11 \<or> k = 12 \<or> k = 13 \<or> k = 32 \<or> k = 160)"

definition trim :: "string \<Rightarrow> string" where
  "trim s = rev (dropWhile isWhiteSpace (rev (dropWhile isWhiteSpace s)))"

definition lowerChar :: "char \<Rightarrow> char" where
  "lowerChar c =
     (let k = (of_char c :: nat) in if 65 \<le> k \<and> k \<le> 90 then char_of (k + 32) else c)"

definition toLowerCase :: "string \<Rightarrow> string" where
  "toLowerCase s = map lowerChar s"

text \<open>\<^verbatim>\<open>s.includes(t)\<close>: \<open>t\<close> occurs in \<open>s\<close> as a contiguous block.\<close>

fun str_includes :: "string \<Rightarrow> string \<Rightarrow> bool" where
  "str_includes [] t = (t = [])"
| "str_includes (c # cs) t = (take (length t) (c # cs) = t \<or> str_includes cs t)"

subsection \<open>The document\<close>

text \<open>
  An element carries its identity, its local name, its attributes and its text content.
  A document is the list of its elements in document order, together with the selector
  engine of the browser, which is not part of the repository and is taken as a
  parameter: for a selector string it gives the set of matching elements, or nothing
  when the string is not a valid selector (the query methods then throw a SyntaxError).
\<close>

record element =
  nodeId :: nat
  localName :: string
  attributes :: "(string \<times> string) list"
  textContent :: string

record document =
  allElements :: "element list"
  selectorEngine :: "string \<Rightarrow> (element \<Rightarrow> bool) option"

datatype jsError = SyntaxError | TypeError

definition getAttribute :: "element \<Rightarrow> string \<Rightarrow> string option" where
  "getAttribute el name = map_of (attributes el) name"

definition querySelectorAll :: "document \<Rightarrow> string \<Rightarrow> jsError + element list" where
  "querySelectorAll d sel =
     (case selectorEngine d sel of
        None \<Rightarrow> Inl SyntaxError
      | Some matches \<Rightarrow> Inr (filter matches (allElements d)))"

definition querySelector :: "document \<Rightarrow> string \<Rightarrow> jsError + element option" where
  "querySelector d sel =
     (case selectorEngine d sel of
        None \<Rightarrow> Inl SyntaxError
      | Some matches \<Rightarrow> Inr (find matches (allElements d)))"

subsection \<open>querySelectorAllWithText\<close>

text \<open>
  The filter callback. \<^verbatim>\<open>el.textContent?.trim() || ''\<close> is the trimmed text content;
  \<^verbatim>\<open>el.getAttribute('value')?.trim() || ''\<close> is the trimmed value attribute, and the
  empty string for an element without one.
\<close>

definition valueText :: "element \<Rightarrow> string" where
  "valueText el = (case getAttribute el ''value'' of None \<Rightarrow> [] | Some v \<Rightarrow> trim v)"

definition textFilter :: "string \<Rightarrow> bool \<Rightarrow> element \<Rightarrow> bool" where
  "textFilter text exact el =
     (let elementText = trim (textContent el);
          searchText = trim text
      in if exact
         then elementText = searchText \<or> valueText el = searchText
         else str_includes (toLowerCase elementText) (toLowerCase searchText) \<or>
              str_includes (toLowerCase (valueText el)) (toLowerCase searchText))"

text \<open>A selector that does not parse is caught: the result is the empty list.\<close>

definition querySelectorAllWithText :: "document \<Rightarrow> string \<Rightarrow> string \<Rightarrow> bool \<Rightarrow> element list" where
  "querySelectorAllWithText d sel text exact =
     (case querySelectorAll d sel of
        Inl e \<Rightarrow> []
      | Inr elements \<Rightarrow> filter (textFilter text exact) elements)"

subsection \<open>findElementFromInteraction\<close>

text \<open>
  The interaction is of type \<^verbatim>\<open>any\<close>. Its \<^verbatim>\<open>selector\<close> is only tested for truth
  and passed to \<^verbatim>\<open>document.querySelector\<close>, which reads it as a string: it is an
  optional string. Its \<^verbatim>\<open>text\<close> has the method \<^verbatim>\<open>trim\<close> called on it, which
  exists on strings only: it is absent (or another falsy value that is not a string), a
  string, or a truthy value that is not a string. A null or undefined interaction is
  \<open>None\<close>.
\<close>

datatype jsText = NoText | Text string | NonString

record interaction =
  selector :: "string option"
  interactionText :: jsText

fun truthy :: "jsText \<Rightarrow> bool" where
  "truthy NoText = False"
| "truthy (Text t) = (t \<noteq> [])"
| "truthy NonString = True"

definition INTERACTIVE :: string where
  \<open>INTERACTIVE = ''a, button, [role="button"], .btn''\<close>

text \<open>
  Each strategy returns its value together with the selectors it has passed to the
  query methods of the document, in the order of the calls.
\<close>

text \<open>Strategy 1: by selector. A SyntaxError is caught on the spot.\<close>

definition selectorStrategy :: "document \<Rightarrow> interaction \<Rightarrow> element option \<times> string list" where
  "selectorStrategy d i =
     (case selector i of
        None \<Rightarrow> (None, [])
      | Some sel \<Rightarrow>
          if sel = [] then (None, [])
          else (case querySelector d sel of
                  Inl e \<Rightarrow> (None, [sel])
                | Inr found \<Rightarrow> (found, [sel])))"

text \<open>
  Strategy 2: by text content, on buttons and links. Calling \<^verbatim>\<open>trim\<close> on a text that
  is not a string throws a TypeError, which leaves the strategy.
\<close>

definition textStrategy ::
  "document \<Rightarrow> interaction \<Rightarrow> bool \<Rightarrow> element option \<Rightarrow> (jsError + element option) \<times> string list" where
  "textStrategy d i requireExactMatch element =
     (if (element = None \<or> requireExactMatch) \<and> truthy (interactionText i)
      then (case interactionText i of
              Text t \<Rightarrow>
                (let trimmed = trim t;
                     textElements = querySelectorAllWithText d INTERACTIVE trimmed True
                 in if length textElements = 1
                    then (Inr (Some (textElements ! 0)), [INTERACTIVE])
                    else if length textElements > 1
                    then (Inr (Some (textElements ! 0)), [INTERACTIVE])
                    else if \<not> requireExactMatch
                    then (let partialMatches = querySelectorAllWithText d INTERACTIVE trimmed False
                          in if length partialMatches > 0
                             then (Inr (Some (partialMatches ! 0)), [INTERACTIVE, INTERACTIVE])
                             else (Inr element, [INTERACTIVE, INTERACTIVE]))
                    else (Inr element, [INTERACTIVE]))
            | _ \<Rightarrow> (Inl TypeError, []))
      else (Inr element, []))"

text \<open>
  Strategy 3: the broader search over every element. Inside querySelectorAllWithText a
  text that is not a string makes the filter throw, which is caught there and gives the
  empty list.
\<close>

definition broadStrategy ::
  "document \<Rightarrow> interaction \<Rightarrow> bool \<Rightarrow> element option \<Rightarrow> element option \<times> string list" where
  "broadStrategy d i requireExactMatch element =
     (if element = None \<and> \<not> requireExactMatch \<and> truthy (interactionText i)
      then (case interactionText i of
              Text t \<Rightarrow>
                (let elements = querySelectorAllWithText d ''*'' t False
                 in if length elements > 0 then (Some (elements ! 0), [''*''])
                    else (element, [''*'']))
            | _ \<Rightarrow> (element, [''*'']))
      else (element, []))"

text \<open>The body of the outer try block.\<close>

definition resolveBody ::
  "document \<Rightarrow> interaction \<Rightarrow> bool \<Rightarrow> (jsError + element option) \<times> string list" where
  "resolveBody d i requireExactMatch =
     (case selectorStrategy d i of
        (e1, q1) \<Rightarrow>
          (case textStrategy d i requireExactMatch e1 of
             (Inl err, q2) \<Rightarrow> (Inl err, q1 @ q2)
           | (Inr e2, q2) \<Rightarrow>
               (case broadStrategy d i requireExactMatch e2 of
                  (e3, q3) \<Rightarrow> (Inr e3, q1 @ q2 @ q3))))"

text \<open>
  The function: its outcome (a returned element or null, or an exception reaching the
  caller) and the queries made on the document.
\<close>

definition findElementFromInteraction ::
  "document \<Rightarrow> interaction option \<Rightarrow> bool \<Rightarrow> (jsError + element option) \<times> string list" where
  "findElementFromInteraction d interaction requireExactMatch =
     (case interaction of
        None \<Rightarrow> (Inr None, [])
      | Some i \<Rightarrow>
          (case resolveBody d i requireExactMatch of
             (Inl error, queries) \<Rightarrow> (Inr None, queries)
           | (Inr element, queries) \<Rightarrow> (Inr element, queries)))"




section \<open>Example data\<close>

text \<open>A rectangle of 200 by 40 pixels, and a target that shows it attached to the body.\<close>

definition buttonRect :: rect where
  "buttonRect = \<lparr>rect_top = 100, rect_left = 50, rect_width = 200, rect_height = 40\<rparr>"

definition steadySample :: sample where
  "steadySample = \<lparr>boundingRect = buttonRect, bodyContains = True, parentChain = [],
                    scrollX = 0, scrollY = 10\<rparr>"

text \<open>A panel of 300 by 120 pixels as an ancestor, and the body.\<close>

definition panel :: ancestor where
  "panel = \<lparr>isBody = False,
            parentRect = \<lparr>rect_top = 20, rect_left = 10, rect_width = 300, rect_height = 120\<rparr>\<rparr>"

definition bodyNode :: ancestor where
  "bodyNode = \<lparr>isBody = True,
               parentRect = \<lparr>rect_top = 0, rect_left = 0, rect_width = 1024, rect_height = 768\<rparr>\<rparr>"

text \<open>A collapsed target inside the panel, which is a child of the body.\<close>

definition collapsedSample :: sample where
  "collapsedSample = \<lparr>boundingRect = zeroRect, bodyContains = True,
                       parentChain = [panel, bodyNode], scrollX = 0, scrollY = 10\<rparr>"

text \<open>
  A collapsed target that \<^verbatim>\<open>document.body.contains\<close> does not find (a node of a shadow
  tree, or an empty node appended to the root element next to the body), with a
  visible parent.
\<close>

definition detachedSample :: sample where
  "detachedSample = \<lparr>boundingRect = zeroRect, bodyContains = False,
                      parentChain = [panel], scrollX = 0, scrollY = 10\<rparr>"

text \<open>A collapsed target that is a child of the body.\<close>

definition bodyChildSample :: sample where
  "bodyChildSample = \<lparr>boundingRect = zeroRect, bodyContains = True,
                       parentChain = [bodyNode], scrollX = 0, scrollY = 10\<rparr>"

text \<open>
  A small selector engine for the examples: the two scope selectors of the source,
  and id selectors made of letters. Every other string is rejected.
\<close>

definition isLetter :: "char \<Rightarrow> bool" where
  "isLetter c \<longleftrightarrow> (let k = (of_char c :: nat) in (65 \<le> k \<and> k \<le> 90) \<or> (97 \<le> k \<and> k \<le> 122))"

definition exampleEngine :: "string \<Rightarrow> (element \<Rightarrow> bool) option" where
  "exampleEngine sel =
     (if sel = INTERACTIVE
      then Some (\<lambda>el. localName el = ''a'' \<or> localName el = ''button'' \<or>
                      getAttribute el ''role'' = Some ''button'' \<or>
                      getAttribute el ''class'' = Some ''btn'')
      else if sel = ''*'' then Some (\<lambda>el. True)
      else (case sel of
              c # name \<Rightarrow>
                if c = CHR ''#'' \<and> name \<noteq> [] \<and> list_all isLetter name
                then Some (\<lambda>el. getAttribute el ''id'' = Some name)
                else None
            | [] \<Rightarrow> None))"

definition heading :: element where
  "heading = \<lparr>nodeId = 1, localName = ''h1'', attributes = [], textContent = ''Submit your order''\<rparr>"

definition cancelLink :: element where
  "cancelLink = \<lparr>nodeId = 2, localName = ''a'', attributes = [(''id'', ''cancel'')],
                 textContent = ''Cancel''\<rparr>"

definition firstSubmit :: element where
  "firstSubmit = \<lparr>nodeId = 3, localName = ''button'', attributes = [],
                  textContent = '' Submit ''\<rparr>"

definition secondSubmit :: element where
  "secondSubmit = \<lparr>nodeId = 7, localName = ''input'',
                   attributes = [(''class'', ''btn''), (''value'', ''Submit'')], textContent = []\<rparr>"

definition examplePage :: document where
  "examplePage = \<lparr>allElements = [heading, cancelLink, firstSubmit, secondSubmit],
                   selectorEngine = exampleEngine\<rparr>"

section \<open>Properties of the position stabilisation\<close>

subsection \<open>Steps of updatePosition\<close>

lemma polling_append:
  "polling m n (xs @ ys) st = polling m n ys (polling m n xs st)"
  by (induction xs arbitrary: st) simp_all

lemma MAX_ATTEMPTS_ge_30: "30 \<le> MAX_ATTEMPTS m n"
  by (simp add: MAX_ATTEMPTS_def)

lemma positionChanged_same: "\<not> positionChanged r r"
  by (simp add: positionChanged_def)

lemma updatePosition_valid:
  assumes "hasValidSize (boundingRect s)" "bodyContains s"
  shows "updatePosition m n s st =
     maxAttemptsCheck m n (validBranch s (st\<lparr>attemptCounter := attemptCounter st + 1\<rparr>))"
  using assms by (simp add: updatePosition_def sampleBranch_def)

lemma maxAttemptsCheck_below:
  "attemptCounter st < MAX_ATTEMPTS m n \<Longrightarrow> maxAttemptsCheck m n st = st"
  by (simp add: maxAttemptsCheck_def)

lemma maxAttemptsCheck_keeps:
  "stabilityCounter (maxAttemptsCheck m n st) = stabilityCounter st"
  "lastRect (maxAttemptsCheck m n st) = lastRect st"
  "attemptCounter (maxAttemptsCheck m n st) = attemptCounter st"
  "style_transform (wrapper (maxAttemptsCheck m n st)) = style_transform (wrapper st)"
  "style_width (wrapper (maxAttemptsCheck m n st)) = style_width (wrapper st)"
  "style_height (wrapper (maxAttemptsCheck m n st)) = style_height (wrapper st)"
  by (simp_all add: maxAttemptsCheck_def)

lemma validBranch_attemptCounter:
  "attemptCounter (validBranch s st) = attemptCounter st"
  by (simp add: validBranch_def Let_def)

lemma validBranch_changed:
  assumes "positionChanged (boundingRect s) (lastRect st)"
  shows "stabilityCounter (validBranch s st) = 0"
    and "lastRect (validBranch s st) = boundingRect s"
    and "positionInterval (wrapper (validBranch s st)) = positionInterval (wrapper st)"
    and "style_opacity (wrapper (validBranch s st)) = style_opacity (wrapper st)"
  using assms by (simp_all add: validBranch_def Let_def placeWrapper_def)

lemma validBranch_stable:
  assumes "\<not> positionChanged (boundingRect s) (lastRect st)"
  shows "stabilityCounter (validBranch s st) = stabilityCounter st + 1"
    and "lastRect (validBranch s st) = lastRect st"
    and "positionInterval (wrapper (validBranch s st)) =
           (if 5 \<le> stabilityCounter st + 1 then None else positionInterval (wrapper st))"
    and "style_opacity (wrapper (validBranch s st)) =
           (if 3 \<le> stabilityCounter st + 1 then ''1'' else style_opacity (wrapper st))"
  using assms by (simp_all add: validBranch_def Let_def placeWrapper_def)

text \<open>
  C6. The timing parameters are those of the table, for the context the two flags
  stand for; the expanding-navigation flag wins over the modal flag.
\<close>

theorem timing_parameters_by_context:
  "(MAX_ATTEMPTS isInModal isInExpandedNav, CHECK_INTERVAL isInModal isInExpandedNav,
    INITIAL_DELAY isInModal isInExpandedNav) = timing_table (classify isInModal isInExpandedNav)
   \<and> classify False False = Standard \<and> classify True False = InModal
   \<and> classify False True = InExpandingNav \<and> classify True True = InExpandingNav
   \<and> timing_table Standard = (30, 50, 0) \<and> timing_table InModal = (50, 100, 300)
   \<and> timing_table InExpandingNav = (60, 80, 400)"
  by (simp add: MAX_ATTEMPTS_def CHECK_INTERVAL_def INITIAL_DELAY_def classify_def)



subsection \<open>A target whose rectangle never changes\<close>

text \<open>
  The state after any number of samples of a valid, constant rectangle \<open>r\<close>. The first
  sample is compared with the all-zero lastRect: it resets the counter when \<open>r\<close> is
  more than a pixel away from it (\<open>d = 1\<close>), and counts as stable otherwise (\<open>d = 0\<close>).
\<close>

lemma constant_rect_invariant:
  fixes r :: rect and m n :: bool and timerId :: nat
  assumes valid: "hasValidSize r"
    and const: "\<forall>s \<in> set samples. boundingRect s = r \<and> bodyContains s"
  defines "d \<equiv> (if positionChanged r zeroRect then 1 else 0 :: nat)"
  shows "(if length samples < d + 5
          then positionInterval (wrapper (stabilize m n timerId samples)) = Some timerId \<and>
               attemptCounter (stabilize m n timerId samples) = length samples \<and>
               stabilityCounter (stabilize m n timerId samples) = length samples - d \<and>
               (if length samples = 0 then lastRect (stabilize m n timerId samples) = zeroRect
                else \<not> positionChanged r (lastRect (stabilize m n timerId samples))) \<and>
               style_opacity (wrapper (stabilize m n timerId samples)) =
                 (if 3 \<le> length samples - d then ''1'' else ''0'')
          else positionInterval (wrapper (stabilize m n timerId samples)) = None \<and>
               style_opacity (wrapper (stabilize m n timerId samples)) = ''1'')"
  using const
proof (induction samples rule: rev_induct)
  case Nil
  show ?case by (simp add: stabilize_def monitoringStarted_def zeroRect_def d_def)
next
  case (snoc s ss)
  define p where "p = stabilize m n timerId ss"
  define q where "q = p\<lparr>attemptCounter := attemptCounter p + 1\<rparr>"
  have step: "stabilize m n timerId (ss @ [s]) = timerFires m n s p"
    by (simp add: stabilize_def polling_append p_def)
  have s: "boundingRect s = r" "bodyContains s" using snoc.prems by simp_all
  have "\<forall>s \<in> set ss. boundingRect s = r \<and> bodyContains s" using snoc.prems by simp
  from snoc.IH [OF this]
  have IH: "(if length ss < d + 5
          then positionInterval (wrapper p) = Some timerId \<and> attemptCounter p = length ss \<and>
               stabilityCounter p = length ss - d \<and>
               (if length ss = 0 then lastRect p = zeroRect else \<not> positionChanged r (lastRect p)) \<and>
               style_opacity (wrapper p) = (if 3 \<le> length ss - d then ''1'' else ''0'')
          else positionInterval (wrapper p) = None \<and> style_opacity (wrapper p) = ''1'')"
    unfolding p_def .
  show ?case
  proof (cases "length ss < d + 5")
    case False
    with IH have "positionInterval (wrapper p) = None" "style_opacity (wrapper p) = ''1''"
      by simp_all
    with False show ?thesis unfolding step by (simp add: timerFires_def)
  next
    case True
    with IH have a: "positionInterval (wrapper p) = Some timerId" "attemptCounter p = length ss"
      "stabilityCounter p = length ss - d"
      "style_opacity (wrapper p) = (if 3 \<le> length ss - d then ''1'' else ''0'')"
      and lr: "(if length ss = 0 then lastRect p = zeroRect
                else \<not> positionChanged r (lastRect p))"
      by simp_all
    have dle: "d \<le> 1" by (simp add: d_def)
    have small: "attemptCounter q < MAX_ATTEMPTS m n"
      using True MAX_ATTEMPTS_ge_30 [of m n] dle a(2) by (simp add: q_def)
    have fire: "timerFires m n s p = validBranch s q"
      using a(1) valid s small
      by (simp add: timerFires_def updatePosition_valid q_def maxAttemptsCheck_below
          validBranch_attemptCounter)
    have q: "positionInterval (wrapper q) = Some timerId" "attemptCounter q = length ss + 1"
      "stabilityCounter q = length ss - d" "lastRect q = lastRect p"
      "style_opacity (wrapper q) = (if 3 \<le> length ss - d then ''1'' else ''0'')"
      using a by (simp_all add: q_def)
    show ?thesis
    proof (cases "positionChanged r (lastRect q)")
      case ch: True
      with lr q(4) have z: "length ss = 0" "d = 1" by (auto simp: d_def split: if_splits)
      from ch have ch': "positionChanged (boundingRect s) (lastRect q)" by (simp add: s)
      show ?thesis unfolding step fire
        using validBranch_changed [OF ch'] validBranch_attemptCounter [of s q] q z s
          positionChanged_same [of r] by simp
    next
      case st: False
      then have st': "\<not> positionChanged (boundingRect s) (lastRect q)" by (simp add: s)
      have dz: "d \<le> length ss"
        using st lr q(4) by (cases ss) (auto simp: d_def)
      have e: "Suc (length ss) - d = Suc (length ss - d)" using dz by simp
      show ?thesis unfolding step fire
        using validBranch_stable [OF st'] validBranch_attemptCounter [of s q] q st s True dz e
        by (simp add: s) arith
    qed
  qed
qed

text \<open>
  C1, as stated, fails: for a button of 200 by 40 pixels at (50, 100) whose rectangle
  is the same at every sample, the wrapper is still hidden after 3 samples and the
  timer is still live after 5.
\<close>

theorem three_samples_not_enough:
  "hasValidSize (boundingRect steadySample) \<and> bodyContains steadySample \<and>
   style_opacity (wrapper (stabilize False False 7
     [steadySample, steadySample, steadySample])) = ''0'' \<and>
   positionInterval (wrapper (stabilize False False 7
     [steadySample, steadySample, steadySample, steadySample, steadySample])) = Some 7"
  by (simp add: stabilize_def monitoringStarted_def timerFires_def updatePosition_def
      sampleBranch_def validBranch_def maxAttemptsCheck_def MAX_ATTEMPTS_def hasValidSize_def
      positionChanged_def placeWrapper_def steadySample_def buttonRect_def Let_def)

text \<open>
  C1, amended. For a target inside the body whose rectangle is valid and the same at
  every sample, in every context: when the rectangle is more than a pixel away from the
  all-zero rectangle in some dimension, the wrapper is visible exactly from the 4th
  sample on and the repeating timer is cleared exactly from the 6th sample on; a
  rectangle within a pixel of the all-zero one gives the 3rd and the 5th sample.
\<close>

theorem constant_rectangle_stabilizes:
  assumes "hasValidSize r"
    and "\<forall>s \<in> set samples. boundingRect s = r \<and> bodyContains s"
  shows "(style_opacity (wrapper (stabilize isInModal isInExpandedNav timerId samples)) = ''1''
            \<longleftrightarrow> (if positionChanged r zeroRect then 4 else 3) \<le> length samples) \<and>
         (positionInterval (wrapper (stabilize isInModal isInExpandedNav timerId samples)) = None
            \<longleftrightarrow> (if positionChanged r zeroRect then 6 else 5) \<le> length samples)"
proof (cases "positionChanged r zeroRect")
  case True
  with constant_rect_invariant [OF assms, of isInModal isInExpandedNav timerId]
  show ?thesis by (cases "length samples < 6") (auto split: if_splits)
next
  case False
  with constant_rect_invariant [OF assms, of isInModal isInExpandedNav timerId]
  show ?thesis by (cases "length samples < 5") (auto split: if_splits)
qed

theorem constant_rectangle_stabilizes_witness:
  "hasValidSize buttonRect \<and>
   boundingRect steadySample = buttonRect \<and> bodyContains steadySample \<and>
   positionChanged buttonRect zeroRect \<and>
   style_opacity (wrapper (stabilize True False 7
     [steadySample, steadySample, steadySample, steadySample])) = ''1'' \<and>
   positionInterval (wrapper (stabilize True False 7
     [steadySample, steadySample, steadySample, steadySample])) \<noteq> None"
proof -
  have v: "hasValidSize buttonRect"
    by (simp add: hasValidSize_def buttonRect_def)
  have c: "\<forall>s \<in> set [steadySample, steadySample, steadySample, steadySample].
      boundingRect s = buttonRect \<and> bodyContains s"
    by (simp add: steadySample_def)
  have p: "positionChanged buttonRect zeroRect"
    by (simp add: positionChanged_def buttonRect_def zeroRect_def)
  have e: "boundingRect steadySample = buttonRect" "bodyContains steadySample"
    by (simp_all add: steadySample_def)
  from constant_rectangle_stabilizes [OF v c, of True False 7] v e p show ?thesis
    by simp
qed

subsection \<open>The attempt budget\<close>

lemma invalidBranch_keeps:
  "attemptCounter (invalidBranch s st) = attemptCounter st"
  "stabilityCounter (invalidBranch s st) = stabilityCounter st"
  "lastRect (invalidBranch s st) = lastRect st"
  "positionInterval (wrapper (invalidBranch s st)) = positionInterval (wrapper st)"
  by (simp_all add: invalidBranch_def placeWrapper_def split: option.splits)











subsection \<open>The ancestor fallback\<close>

lemma findVisibleParent_find:
  "findVisibleParent chain k =
     map_option parentRect (find visibleAncestor (take (10 - k) (belowBody chain)))"
proof (induction chain arbitrary: k)
  case Nil
  show ?case by (simp add: belowBody_def)
next
  case (Cons a chain)
  show ?case
  proof (cases "isBody a \<or> \<not> k < 10")
    case True
    then show ?thesis by (auto simp: belowBody_def)
  next
    case False
    then obtain j where j: "10 - k = Suc j" "10 - (k + 1) = j"
      by (cases "10 - k") auto
    from False j Cons.IH [of "k + 1"] show ?thesis
      by (simp add: belowBody_def visibleAncestor_def)
  qed
qed

text \<open>
  C2, as stated, fails in two ways. A target outside the body whose parent is visible is
  not put on that parent: the wrapper stays unpositioned and hidden. And a collapsed
  target whose only visible ancestor is the body stays unpositioned as well, because the
  walk stops at the body.
\<close>

theorem detached_target_not_positioned:
  "\<not> bodyContains detachedSample \<and>
   ancestorFallback_spec (parentChain detachedSample) = Some (parentRect panel) \<and>
   style_transform (wrapper (updatePosition False False detachedSample (monitoringStarted 7)))
     = None \<and>
   style_opacity (wrapper (updatePosition False False detachedSample (monitoringStarted 7)))
     = ''0'' \<and>
   \<not> hasValidSize (boundingRect bodyChildSample) \<and>
   ancestorFallback_spec (parentChain bodyChildSample) = Some (parentRect bodyNode) \<and>
   style_transform (wrapper (updatePosition False False bodyChildSample (monitoringStarted 7)))
     = None"
  by (simp add: updatePosition_def sampleBranch_def invalidBranch_def maxAttemptsCheck_def
      MAX_ATTEMPTS_def ancestorFallback_spec_def visibleAncestor_def hasValidSize_def
      detachedSample_def bodyChildSample_def panel_def bodyNode_def zeroRect_def
      monitoringStarted_def)

text \<open>
  C2, amended. On a sample that finds the target outside the document body or without
  a positive width and height, outside the grace period of an expanding navigation:
  if the target is inside the body, the ancestors are looked at from the parent
  upwards, at most 10 of them and only those below \<^verbatim>\<open>document.body\<close>, and the wrapper
  is put on the first one with a positive width and height and made visible; if there
  is none, or if the target is outside the body, the geometry of the wrapper is left as
  it was. In both cases the call only counts an attempt: the stability counter and
  lastRect are unchanged, and the timer stays as it was unless the attempt budget is
  used up, so the original element is polled again.
\<close>

theorem ancestor_fallback:
  assumes "\<not> (hasValidSize (boundingRect smp) \<and> bodyContains smp)"
    and "\<not> (isInExpandedNav \<and>
            real (attemptCounter st + 1) < real (MAX_ATTEMPTS isInModal isInExpandedNav) / 2)"
  shows
    "(case (if bodyContains smp
            then find visibleAncestor (take 10 (belowBody (parentChain smp))) else None) of
        Some a \<Rightarrow>
          style_transform (wrapper (updatePosition isInModal isInExpandedNav smp st)) =
            Some (rect_left (parentRect a) + scrollX smp, rect_top (parentRect a) + scrollY smp) \<and>
          style_width (wrapper (updatePosition isInModal isInExpandedNav smp st)) =
            Some (rect_width (parentRect a)) \<and>
          style_height (wrapper (updatePosition isInModal isInExpandedNav smp st)) =
            Some (rect_height (parentRect a)) \<and>
          style_opacity (wrapper (updatePosition isInModal isInExpandedNav smp st)) = ''1''
      | None \<Rightarrow>
          style_transform (wrapper (updatePosition isInModal isInExpandedNav smp st)) =
            style_transform (wrapper st) \<and>
          style_width (wrapper (updatePosition isInModal isInExpandedNav smp st)) =
            style_width (wrapper st) \<and>
          style_height (wrapper (updatePosition isInModal isInExpandedNav smp st)) =
            style_height (wrapper st)) \<and>
     stabilityCounter (updatePosition isInModal isInExpandedNav smp st) = stabilityCounter st \<and>
     lastRect (updatePosition isInModal isInExpandedNav smp st) = lastRect st \<and>
     attemptCounter (updatePosition isInModal isInExpandedNav smp st) = attemptCounter st + 1 \<and>
     positionInterval (wrapper (updatePosition isInModal isInExpandedNav smp st)) =
       (if MAX_ATTEMPTS isInModal isInExpandedNav \<le> attemptCounter st + 1 then None
        else positionInterval (wrapper st))"
proof -
  define q where "q = st\<lparr>attemptCounter := attemptCounter st + 1\<rparr>"
  have u: "updatePosition isInModal isInExpandedNav smp st =
      maxAttemptsCheck isInModal isInExpandedNav (invalidBranch smp q)"
    using assms by (auto simp: updatePosition_def sampleBranch_def q_def)
  have counters: "stabilityCounter (invalidBranch smp q) = stabilityCounter st"
    "lastRect (invalidBranch smp q) = lastRect st"
    "attemptCounter (invalidBranch smp q) = attemptCounter st + 1"
    "positionInterval (wrapper (invalidBranch smp q)) = positionInterval (wrapper st)"
    by (simp_all add: invalidBranch_keeps q_def)
  have timer: "positionInterval (wrapper (updatePosition isInModal isInExpandedNav smp st)) =
       (if MAX_ATTEMPTS isInModal isInExpandedNav \<le> attemptCounter st + 1 then None
        else positionInterval (wrapper st))"
    unfolding u using counters(3,4) by (simp add: maxAttemptsCheck_def)
  have rest: "stabilityCounter (updatePosition isInModal isInExpandedNav smp st) =
        stabilityCounter st"
    "lastRect (updatePosition isInModal isInExpandedNav smp st) = lastRect st"
    "attemptCounter (updatePosition isInModal isInExpandedNav smp st) = attemptCounter st + 1"
    unfolding u using counters by (simp_all add: maxAttemptsCheck_keeps)
  have geo: "style_transform (wrapper (updatePosition isInModal isInExpandedNav smp st)) =
        style_transform (wrapper (invalidBranch smp q))"
    "style_width (wrapper (updatePosition isInModal isInExpandedNav smp st)) =
        style_width (wrapper (invalidBranch smp q))"
    "style_height (wrapper (updatePosition isInModal isInExpandedNav smp st)) =
        style_height (wrapper (invalidBranch smp q))"
    unfolding u by (simp_all add: maxAttemptsCheck_keeps)
  have walk: "findVisibleParent (parentChain smp) 0 =
      map_option parentRect (find visibleAncestor (take 10 (belowBody (parentChain smp))))"
    using findVisibleParent_find [of "parentChain smp" 0] by simp
  show ?thesis
  proof (cases "bodyContains smp")
    case False
    then have "invalidBranch smp q = q" by (simp add: invalidBranch_def)
    with False geo timer rest show ?thesis by (simp add: q_def)
  next
    case inside: True
    with assms(1) have nv: "\<not> hasValidSize (boundingRect smp)" by simp
    show ?thesis
    proof (cases "find visibleAncestor (take 10 (belowBody (parentChain smp)))")
      case None
      then have "invalidBranch smp q = q"
        using walk by (simp add: invalidBranch_def)
      with None inside geo timer rest show ?thesis by (simp add: q_def)
    next
      case (Some a)
      then have ne: "parentChain smp \<noteq> []" by (auto simp: belowBody_def)
      have ib: "invalidBranch smp q =
          q\<lparr>wrapper := (placeWrapper (parentRect a) smp (wrapper q))\<lparr>style_opacity := ''1''\<rparr>\<rparr>"
        using walk Some inside nv ne by (simp add: invalidBranch_def)
      have op: "style_opacity (wrapper (updatePosition isInModal isInExpandedNav smp st)) = ''1''"
        unfolding u ib by (simp add: maxAttemptsCheck_def)
      from Some inside geo timer rest op show ?thesis
        by (simp add: ib placeWrapper_def)
    qed
  qed
qed

theorem ancestor_fallback_witness:
  "\<not> (hasValidSize (boundingRect collapsedSample) \<and> bodyContains collapsedSample) \<and>
   \<not> (False \<and> real (attemptCounter (monitoringStarted 7) + 1) < real (MAX_ATTEMPTS False False) / 2) \<and>
   find visibleAncestor (take 10 (belowBody (parentChain collapsedSample))) = Some panel \<and>
   style_transform (wrapper (updatePosition False False collapsedSample (monitoringStarted 7)))
     = Some (10, 30) \<and>
   style_width (wrapper (updatePosition False False collapsedSample (monitoringStarted 7)))
     = Some 300 \<and>
   style_opacity (wrapper (updatePosition False False collapsedSample (monitoringStarted 7)))
     = ''1'' \<and>
   stabilityCounter (updatePosition False False collapsedSample (monitoringStarted 7)) = 0 \<and>
   positionInterval (wrapper (updatePosition False False collapsedSample (monitoringStarted 7)))
     = Some 7"
proof -
  have h1: "\<not> (hasValidSize (boundingRect collapsedSample) \<and> bodyContains collapsedSample)"
    by (simp add: hasValidSize_def collapsedSample_def zeroRect_def)
  have h2: "\<not> (False \<and> real (attemptCounter (monitoringStarted 7) + 1)
              < real (MAX_ATTEMPTS False False) / 2)"
    by simp
  have f: "find visibleAncestor (take 10 (belowBody (parentChain collapsedSample))) = Some panel"
    by (simp add: belowBody_def visibleAncestor_def collapsedSample_def panel_def bodyNode_def)
  have c: "bodyContains collapsedSample" "scrollX collapsedSample = 0"
    "scrollY collapsedSample = 10"
    by (simp_all add: collapsedSample_def)
  have m: "\<not> MAX_ATTEMPTS False False \<le> attemptCounter (monitoringStarted 7) + 1"
    by (simp add: MAX_ATTEMPTS_def monitoringStarted_def)
  have s: "stabilityCounter (monitoringStarted 7) = 0"
    "positionInterval (wrapper (monitoringStarted 7)) = Some 7"
    by (simp_all add: monitoringStarted_def)
  from ancestor_fallback [OF h1 h2] h1 f c m s show ?thesis
    by (simp add: panel_def)
qed

section \<open>Properties of the element resolution\<close>

subsection \<open>Strings\<close>





subsection \<open>The text matcher\<close>




subsection \<open>The strategies\<close>





lemma broadStrategy_found:
  "fst (broadStrategy d i requireExactMatch (Some e)) = Some e"
  by (simp add: broadStrategy_def)




text \<open>
  C7. For every interaction, flag and document, findElementFromInteraction returns an
  element or null and no exception reaches the caller. A selector that does not parse
  is caught where the query is made: the outcome is that of the same descriptor without
  the selector, so the text strategies run as usual.
\<close>

theorem resolution_never_throws:
  "(\<exists>found. fst (findElementFromInteraction d interaction requireExactMatch) = Inr found) \<and>
   (selectorEngine d sel = None \<longrightarrow>
      fst (findElementFromInteraction d
             (Some \<lparr>selector = Some sel, interactionText = txt\<rparr>) requireExactMatch) =
      fst (findElementFromInteraction d
             (Some \<lparr>selector = None, interactionText = txt\<rparr>) requireExactMatch))"
proof
  show "\<exists>found. fst (findElementFromInteraction d interaction requireExactMatch) = Inr found"
    by (auto simp: findElementFromInteraction_def split: option.splits prod.splits sum.splits)
next
  show "selectorEngine d sel = None \<longrightarrow>
      fst (findElementFromInteraction d
             (Some \<lparr>selector = Some sel, interactionText = txt\<rparr>) requireExactMatch) =
      fst (findElementFromInteraction d
             (Some \<lparr>selector = None, interactionText = txt\<rparr>) requireExactMatch)"
  proof
    assume bad: "selectorEngine d sel = None"
    have t: "textStrategy d \<lparr>selector = Some sel, interactionText = txt\<rparr> requireExactMatch None
        = textStrategy d \<lparr>selector = None, interactionText = txt\<rparr> requireExactMatch None"
      by (simp add: textStrategy_def)
    have b: "\<And>e. broadStrategy d \<lparr>selector = Some sel, interactionText = txt\<rparr> requireExactMatch e
        = broadStrategy d \<lparr>selector = None, interactionText = txt\<rparr> requireExactMatch e"
      by (simp add: broadStrategy_def)
    have s: "fst (selectorStrategy d \<lparr>selector = Some sel, interactionText = txt\<rparr>) = None"
      "fst (selectorStrategy d \<lparr>selector = None, interactionText = txt\<rparr>) = None"
      using bad by (simp_all add: selectorStrategy_def querySelector_def)
    show "fst (findElementFromInteraction d
             (Some \<lparr>selector = Some sel, interactionText = txt\<rparr>) requireExactMatch) =
      fst (findElementFromInteraction d
             (Some \<lparr>selector = None, interactionText = txt\<rparr>) requireExactMatch)"
      using s t b
      by (auto simp: findElementFromInteraction_def resolveBody_def
          split: prod.splits sum.splits)
  qed
qed

theorem resolution_never_throws_witness:
  "selectorEngine examplePage ''###'' = None \<and>
   fst (findElementFromInteraction examplePage
          (Some \<lparr>selector = Some ''###'', interactionText = Text ''Submit''\<rparr>) True)
     = fst (findElementFromInteraction examplePage
          (Some \<lparr>selector = None, interactionText = Text ''Submit''\<rparr>) True) \<and>
   fst (findElementFromInteraction examplePage
          (Some \<lparr>selector = None, interactionText = Text ''Submit''\<rparr>) True)
     = Inr (Some firstSubmit) \<and>
   fst (resolveBody examplePage \<lparr>selector = Some ''#cancel'', interactionText = NonString\<rparr> True)
     = Inl TypeError \<and>
   (\<exists>found. fst (findElementFromInteraction examplePage
          (Some \<lparr>selector = Some ''#cancel'', interactionText = NonString\<rparr>) True) = Inr found)"
proof -
  have bad: "selectorEngine examplePage ''###'' = None" by code_simp
  have r: "fst (findElementFromInteraction examplePage
          (Some \<lparr>selector = None, interactionText = Text ''Submit''\<rparr>) True)
     = Inr (Some firstSubmit)" by code_simp
  have e: "fst (resolveBody examplePage
          \<lparr>selector = Some ''#cancel'', interactionText = NonString\<rparr> True) = Inl TypeError"
    by code_simp
  from resolution_never_throws [of examplePage
      "Some \<lparr>selector = Some ''#cancel'', interactionText = NonString\<rparr>" True "''###''"
      "Text ''Submit''"] bad r e
  show ?thesis by simp
qed

text \<open>
  C10. A null or undefined interaction gives null without any query to the document.
  And when the selector strategy has found an element and the exact text search finds
  nothing, the element of the selector is the result.
\<close>

theorem null_interaction_and_selector_hit_kept:
  "findElementFromInteraction d None requireExactMatch = (Inr None, []) \<and>
   (selector i = Some sel \<and> sel \<noteq> [] \<and> querySelector d sel = Inr (Some e) \<and>
    interactionText i = Text t \<and>
    querySelectorAllWithText d INTERACTIVE (trim t) True = [] \<longrightarrow>
      fst (findElementFromInteraction d (Some i) requireExactMatch) = Inr (Some e))"
proof (intro conjI impI)
  show "findElementFromInteraction d None requireExactMatch = (Inr None, [])"
    by (simp add: findElementFromInteraction_def)
next
  assume h: "selector i = Some sel \<and> sel \<noteq> [] \<and> querySelector d sel = Inr (Some e) \<and>
    interactionText i = Text t \<and> querySelectorAllWithText d INTERACTIVE (trim t) True = []"
  then have s1: "selectorStrategy d i = (Some e, [sel])"
    by (simp add: selectorStrategy_def)
  from h have s2: "fst (textStrategy d i requireExactMatch (Some e)) = Inr (Some e)"
    by (simp add: textStrategy_def Let_def)
  then obtain q2 where s2': "textStrategy d i requireExactMatch (Some e) = (Inr (Some e), q2)"
    by (cases "textStrategy d i requireExactMatch (Some e)") simp
  obtain q3 where s3: "broadStrategy d i requireExactMatch (Some e) = (Some e, q3)"
    using broadStrategy_found [of d i requireExactMatch e]
    by (cases "broadStrategy d i requireExactMatch (Some e)") simp
  show "fst (findElementFromInteraction d (Some i) requireExactMatch) = Inr (Some e)"
    by (simp add: findElementFromInteraction_def resolveBody_def s1 s2' s3)
qed

theorem null_interaction_and_selector_hit_kept_witness:
  "selector \<lparr>selector = Some ''#cancel'', interactionText = Text ''Nope''\<rparr> = Some ''#cancel'' \<and>
   ''#cancel'' \<noteq> [] \<and> querySelector examplePage ''#cancel'' = Inr (Some cancelLink) \<and>
   interactionText \<lparr>selector = Some ''#cancel'', interactionText = Text ''Nope''\<rparr> = Text ''Nope'' \<and>
   querySelectorAllWithText examplePage INTERACTIVE (trim ''Nope'') True = [] \<and>
   fst (findElementFromInteraction examplePage
          (Some \<lparr>selector = Some ''#cancel'', interactionText = Text ''Nope''\<rparr>) True)
     = Inr (Some cancelLink) \<and>
   findElementFromInteraction examplePage None True = (Inr None, [])"
proof -
  have q: "querySelector examplePage ''#cancel'' = Inr (Some cancelLink)" by code_simp
  have n: "querySelectorAllWithText examplePage INTERACTIVE (trim ''Nope'') True = []"
    by code_simp
  from null_interaction_and_selector_hit_kept [of examplePage True
      "\<lparr>selector = Some ''#cancel'', interactionText = Text ''Nope''\<rparr>" "''#cancel''"
      cancelLink "''Nope''"] q n
  show ?thesis by simp
qed

section \<open>Retargeting the highlight\<close>

text \<open>
  C8 does not hold of the source. A first target is highlighted and its delayed callback
  has started the repeating timer; then a second target is highlighted. The call removes
  the first wrapper from the document and attaches the new one, but the timer of the
  first run is still live afterwards, and its next firing still runs updatePosition on
  the removed wrapper.
\<close>

theorem previous_timer_survives_retarget:
  "attachedWrappers (delayElapsed False False 0 7 steadySample
      (positionHighlightOnElement emptyPage)) = [0] \<and>
   liveTimer (delayElapsed False False 0 7 steadySample
      (positionHighlightOnElement emptyPage)) 0 \<and>
   attachedWrappers (positionHighlightOnElement (delayElapsed False False 0 7 steadySample
      (positionHighlightOnElement emptyPage))) = [1] \<and>
   liveTimer (positionHighlightOnElement (delayElapsed False False 0 7 steadySample
      (positionHighlightOnElement emptyPage))) 0 \<and>
   map_option attemptCounter (runs (intervalElapsed False False 0 steadySample
      (positionHighlightOnElement (delayElapsed False False 0 7 steadySample
        (positionHighlightOnElement emptyPage)))) 0) = Some 2"
  by (simp add: positionHighlightOnElement_def delayElapsed_def intervalElapsed_def
      liveTimer_def emptyPage_def timerFires_def updatePosition_def sampleBranch_def
      validBranch_def maxAttemptsCheck_def MAX_ATTEMPTS_def hasValidSize_def
      positionChanged_def placeWrapper_def steadySample_def buttonRect_def Let_def)

end
